theory Spec2Isabelle
  imports Main "HOL-Library.Log_Nat"
begin

text \<open>
  A model of the Monero wallet RPC client: the typed client whose operations return a
  tagged \<open>Result\<close>.  The dispatch primitive \<open>Wallet.request\<close>, the sixteen public
  operations built on it and the helper \<open>convert\<close> are embedded as functions; the HTTP
  transport and the daemon behind it are a parameter, a function from the request sent to
  the way the promise of \<open>request.post\<close> settles.
\<close>

section \<open>JavaScript values\<close>

text \<open>
  A JavaScript number is an IEEE-754 binary64 value.  The finite ones are rationals; the
  two zeros are identified (both are falsy, and both are written \<open>0\<close> in a JSON body).
\<close>

datatype number = Fin rat | PosInf | NegInf | NaN

text \<open>\<open>ilog2 a\<close> is the binary exponent of a positive rational: \<open>2^k \<le> a < 2^(k+1)\<close>.\<close>

definition ilog2 :: "rat \<Rightarrow> int" where
  "ilog2 a = (let (p, q) = quotient_of a; k = bitlen p - bitlen q
              in if 2 powi k \<le> a then k else k - 1)"

text \<open>Nearest integer, a tie going to the even one.\<close>

definition round_even :: "rat \<Rightarrow> int" where
  "round_even x = (let n = \<lfloor>x\<rfloor>; d = x - of_int n
                   in if d < 1/2 then n else if 1/2 < d then n + 1
                      else if even n then n else n + 1)"

text \<open>
  The binary64 value of an exact result, in the default rounding mode (to nearest, ties
  to even): a significand of 53 bits, exponents of the last bit from \<open>-1074\<close> up, and
  overflow to an infinity from \<open>2^1024\<close> on.
\<close>

definition fl :: "rat \<Rightarrow> number" where
  "fl q = (if q = 0 then Fin 0
           else let a = \<bar>q\<bar>;
                    e = max (ilog2 a - 52) (- 1074);
                    m = round_even (a / 2 powi e);
                    x = of_int m * 2 powi e
                in if 2 ^ 1024 \<le> x then (if 0 < q then PosInf else NegInf)
                   else Fin (sgn q * x))"

text \<open>The rationals that are binary64 values.\<close>

definition representable :: "rat \<Rightarrow> bool" where
  "representable x \<longleftrightarrow>
     (\<exists>m e. x = of_int m * 2 powi e \<and> \<bar>m\<bar> < 2 ^ 53 \<and> - 1074 \<le> e) \<and> \<bar>x\<bar> < 2 ^ 1024"

text \<open>The operator \<open>*\<close> on numbers.\<close>

fun multiply :: "number \<Rightarrow> number \<Rightarrow> number" where
  "multiply (Fin a) (Fin b) = fl (a * b)"
| "multiply NaN y = NaN"
| "multiply x NaN = NaN"
| "multiply (Fin a) PosInf = (if a = 0 then NaN else if 0 < a then PosInf else NegInf)"
| "multiply (Fin a) NegInf = (if a = 0 then NaN else if 0 < a then NegInf else PosInf)"
| "multiply PosInf (Fin b) = (if b = 0 then NaN else if 0 < b then PosInf else NegInf)"
| "multiply NegInf (Fin b) = (if b = 0 then NaN else if 0 < b then NegInf else PosInf)"
| "multiply PosInf PosInf = PosInf"
| "multiply PosInf NegInf = NegInf"
| "multiply NegInf PosInf = NegInf"
| "multiply NegInf NegInf = PosInf"

text \<open>
  The text \<open>x.toFixed(0)\<close> returns, kept as what it denotes: the decimal digits of an
  integer with its sign, or, for a number that is not finite or whose magnitude reaches
  \<open>10^21\<close>, the text \<open>ToString(x)\<close>.  Below \<open>10^21\<close> the integer is the one nearest
  to the magnitude, the larger one on a tie.
\<close>

datatype numeric_text = Digits int | ToString number

definition toFixed0 :: "number \<Rightarrow> numeric_text" where
  "toFixed0 v =
    (case v of
       Fin x \<Rightarrow>
         (let s = (x < 0);
              x = \<bar>x\<bar>
          in if 10 ^ 21 \<le> x then ToString v
             else let n = \<lfloor>x\<rfloor>;
                      n = (if x - of_int n < of_int (n + 1) - x then n else n + 1)
                  in Digits (if s then - n else n))
     | _ \<Rightarrow> ToString v)"

text \<open>
  \<open>Number(text)\<close>: digits denote the binary64 value nearest to the integer, and
  \<open>ToString\<close> of a number reads back as that number.
\<close>

fun Number :: "numeric_text \<Rightarrow> number" where
  "Number (Digits n) = fl (of_int n)"
| "Number (ToString v) = v"

text \<open>
  The helper \<open>convert\<close>.  Its argument is a number at every call, so the inner
  \<open>Number(amount)\<close> is the identity.
\<close>

definition convert :: "number \<Rightarrow> number" where
  "convert amount =
    (let number = multiply amount (Fin 1000000000000);
         number = toFixed0 number
     in Number number)"

text \<open>
  The values that travel through the client: what \<open>JSON.parse\<close> produces, plus
  \<open>undefined\<close> for an absent property or an omitted argument.  An object is the list of
  its own properties in insertion order.
\<close>

datatype json =
    Undefined
  | Null
  | Bool bool
  | Num number
  | Str string
  | Arr "json list"
  | Obj "(string \<times> json) list"

text \<open>ToBoolean, as used by \<open>if (x)\<close>, \<open>!x\<close> and \<open>x || d\<close>.\<close>

fun truthy_number :: "number \<Rightarrow> bool" where
  "truthy_number (Fin q) = (q \<noteq> 0)"
| "truthy_number NaN = False"
| "truthy_number PosInf = True"
| "truthy_number NegInf = True"

fun truthy :: "json \<Rightarrow> bool" where
  "truthy Undefined = False"
| "truthy Null = False"
| "truthy (Bool b) = b"
| "truthy (Num n) = truthy_number n"
| "truthy (Str s) = (s \<noteq> [])"
| "truthy (Arr xs) = True"
| "truthy (Obj kvs) = True"

datatype thrown = TypeError

text \<open>
  Property read \<open>v.k\<close>.  Reading a property of \<open>undefined\<close> or \<open>null\<close> throws a
  TypeError.  On an object it is the own property or \<open>undefined\<close>.  The client only ever
  reads the names \<open>error\<close>, \<open>message\<close>, \<open>result\<close> and the unwrap keys; none of them is
  a property of a primitive or of an array, so those reads give \<open>undefined\<close>.
\<close>

fun get :: "json \<Rightarrow> string \<Rightarrow> thrown + json" where
  "get Undefined k = Inl TypeError"
| "get Null k = Inl TypeError"
| "get (Obj kvs) k = Inr (case map_of kvs k of None \<Rightarrow> Undefined | Some v \<Rightarrow> v)"
| "get v k = Inr Undefined"

text \<open>The operator \<open>x || d\<close> on each of the argument types the client defaults.\<close>

definition or_string :: "string option \<Rightarrow> string \<Rightarrow> string" where
  "or_string x d = (case x of None \<Rightarrow> d | Some s \<Rightarrow> if s \<noteq> [] then s else d)"

definition or_number :: "number option \<Rightarrow> number \<Rightarrow> number" where
  "or_number x d = (case x of None \<Rightarrow> d | Some n \<Rightarrow> if truthy_number n then n else d)"

definition or_bool :: "bool option \<Rightarrow> bool \<Rightarrow> bool" where
  "or_bool x d = (case x of None \<Rightarrow> d | Some b \<Rightarrow> if b then b else d)"

definition or_null :: "string option \<Rightarrow> json" where
  "or_null x = (case x of None \<Rightarrow> Null | Some s \<Rightarrow> if s \<noteq> [] then Str s else Null)"

section \<open>Promises and the tagged result\<close>

datatype ('a, 'e) promise = Fulfilled 'a | Rejected 'e

text \<open>
  The payload of \<open>Result.err\<close> is either the rejection reason of the transport, handed
  over as it is (\<open>Raw\<close>), or an Error object made by the call itself (\<open>NewError\<close>):
  \<open>NewError (Str s)\<close> is an Error whose message is the string \<open>s\<close>, and
  \<open>NewError Undefined\<close> one that has no message of its own, as \<open>new Error(undefined)\<close>
  builds.  An object made by the call is never the reason object itself, also when the two
  look alike; nothing below compares a \<open>Raw\<close> with a \<open>NewError\<close>.
\<close>

datatype failure = Raw json | NewError json

datatype result = Ok json | Err failure

text \<open>The field \<open>r.res\<close> of a result: the payload of \<open>Ok\<close>, \<open>undefined\<close> on \<open>Err\<close>.\<close>

fun res :: "result \<Rightarrow> json" where
  "res (Ok x) = x"
| "res (Err e) = Undefined"

text \<open>
  \<open>await protect(p)\<close> of the await-protect package never throws: it gives the pair
  \<open>{res, err}\<close>, with \<open>res\<close> the value of a fulfilled \<open>p\<close> and \<open>err\<close> the reason of a
  rejected one, the other field being \<open>undefined\<close>.
\<close>

fun protect :: "(json, json) promise \<Rightarrow> json \<times> json" where
  "protect (Fulfilled v) = (v, Undefined)"
| "protect (Rejected e) = (Undefined, e)"

section \<open>Conversion to a string\<close>

text \<open>
  \<open>Number::toString\<close> in radix 10.  For a positive number \<open>x\<close> it takes the shortest
  digit string \<open>s\<close>, of \<open>k\<close> digits, and the exponent \<open>n\<close> such that \<open>s * 10^(n-k)\<close>
  reads back as \<open>x\<close>; of two such strings of the same length the one nearer to \<open>x\<close>.
\<close>

text \<open>The decimal digits of a natural number.\<close>

fun decimal :: "nat \<Rightarrow> string" where
  "decimal n = (if n < 10 then [''0123456789'' ! n]
                else decimal (n div 10) @ [''0123456789'' ! (n mod 10)])"

declare decimal.simps [simp del]

text \<open>\<open>ilog10 x\<close> is the decimal exponent of a positive rational: \<open>10^(n-1) \<le> x < 10^n\<close>.\<close>

definition ilog10 :: "rat \<Rightarrow> int" where
  "ilog10 x = (if 1 \<le> x then int (floorlog 10 (nat \<lfloor>x\<rfloor>))
               else 1 - int (floorlog 10 (nat (\<lceil>1 / x\<rceil> - 1))))"

definition reads_back :: "rat \<Rightarrow> int \<Rightarrow> nat \<Rightarrow> int \<Rightarrow> bool" where
  "reads_back x n k s \<longleftrightarrow>
     10 ^ (k - 1) \<le> s \<and> s < 10 ^ k \<and> fl (of_int s * 10 powi (n - int k)) = Fin x"

text \<open>
  The digits of length \<open>k\<close>, if any read back: the candidates are the two multiples of
  \<open>10^(n-k)\<close> around \<open>x\<close>, and, for one digit, the next power of ten.
\<close>

definition digits_of_length :: "rat \<Rightarrow> nat \<Rightarrow> (int \<times> int) option" where
  "digits_of_length x k =
    (let n = ilog10 x;
         d = 10 powi (n - int k);
         lo = \<lfloor>x / d\<rfloor>;
         hi = lo + 1;
         below = reads_back x n k lo;
         above = reads_back x n k hi;
         nearer = (x - of_int lo * d < of_int hi * d - x
                   \<or> (x - of_int lo * d = of_int hi * d - x \<and> even lo))
     in if below \<and> (\<not> above \<or> nearer) then Some (n, lo)
        else if above then Some (n, hi)
        else if k = 1 \<and> hi = 10 \<and> reads_back x (n + 1) 1 1 then Some (n + 1, 1)
        else None)"

text \<open>
  The shortest length is tried first.  Seventeen digits read back for every binary64
  value; for a rational that is not one, the seventeen digits nearest to it are taken.
\<close>

fun shortest :: "rat \<Rightarrow> nat list \<Rightarrow> nat \<times> int \<times> int" where
  "shortest x [] = (17, ilog10 x, round (x / 10 powi (ilog10 x - 17)))"
| "shortest x (k # ks) =
     (case digits_of_length x k of
        Some (n, s) \<Rightarrow> (k, n, s)
      | None \<Rightarrow> shortest x ks)"

definition positive_text :: "rat \<Rightarrow> string" where
  "positive_text x =
    (let (k, n, s) = shortest x [1, 2, 3, 4, 5, 6, 7, 8, 9, 10, 11, 12, 13, 14, 15, 16, 17];
         ds = decimal (nat s);
         e = n - 1
     in if int k \<le> n \<and> n \<le> 21 then ds @ replicate (nat (n - int k)) CHR ''0''
        else if 0 < n \<and> n \<le> 21 then take (nat n) ds @ ''.'' @ drop (nat n) ds
        else if - 6 < n \<and> n \<le> 0 then ''0.'' @ replicate (nat (- n)) CHR ''0'' @ ds
        else (if k = 1 then ds else take 1 ds @ ''.'' @ drop 1 ds)
             @ ''e'' @ (if e < 0 then ''-'' else ''+'') @ decimal (nat \<bar>e\<bar>))"

definition number_to_string :: "number \<Rightarrow> string" where
  "number_to_string v =
    (case v of
       NaN \<Rightarrow> ''NaN''
     | PosInf \<Rightarrow> ''Infinity''
     | NegInf \<Rightarrow> ''-Infinity''
     | Fin x \<Rightarrow>
         if x = 0 then ''0''
         else if x < 0 then ''-'' @ positive_text (- x)
         else positive_text x)"

text \<open>
  \<open>ToString\<close> of a value.  An array is its elements joined by commas, \<open>null\<close> and
  \<open>undefined\<close> elements giving nothing.  An object parsed from JSON has no function among
  its properties: without a property \<open>toString\<close> of its own it is converted by
  \<open>Object.prototype.toString\<close>; with one, which cannot be called, the conversion falls
  to \<open>valueOf\<close>, which gives no primitive, and throws a TypeError.
\<close>

fun ToString :: "json \<Rightarrow> thrown + string"
  and join :: "json list \<Rightarrow> thrown + string" where
  "ToString Undefined = Inr ''undefined''"
| "ToString Null = Inr ''null''"
| "ToString (Bool b) = Inr (if b then ''true'' else ''false'')"
| "ToString (Num n) = Inr (number_to_string n)"
| "ToString (Str s) = Inr s"
| "ToString (Arr xs) = join xs"
| "ToString (Obj kvs) =
     (if map_of kvs ''toString'' = None then Inr ''[object Object]'' else Inl TypeError)"
| "join [] = Inr []"
| "join (x # xs) =
     (case (if x = Undefined \<or> x = Null then Inr [] else ToString x) of
        Inl e \<Rightarrow> Inl e
      | Inr s \<Rightarrow>
          if xs = [] then Inr s
          else (case join xs of Inl e \<Rightarrow> Inl e | Inr t \<Rightarrow> Inr (s @ '','' @ t)))"

text \<open>
  \<open>new Error(message)\<close>: the message is converted to a string unless it is \<open>undefined\<close>,
  and the conversion may throw.
\<close>

definition new_Error :: "json \<Rightarrow> thrown + failure" where
  "new_Error message =
    (if message = Undefined then Inr (NewError Undefined)
     else (case ToString message of
             Inl e \<Rightarrow> Inl e
           | Inr msg \<Rightarrow> Inr (NewError (Str msg))))"

section \<open>The client\<close>

record Wallet =
  hostname :: string
  port :: number
  user :: string
  pass :: string

text \<open>
  The template literal of the URL is kept as its pieces; \<open>Interpolated n\<close> stands for
  the decimal text of the number \<open>n\<close>.
\<close>

datatype piece = Chars string | Interpolated number



record credentials =
  auth_user :: string
  auth_pass :: string
  sendImmediately :: bool

record http_request =
  verb :: string
  url :: "piece list"
  forever :: bool
  body :: json
  auth :: "credentials option"

type_synonym transport = "http_request \<Rightarrow> (json, json) promise"

text \<open>
  One call of an operation: the HTTP request it handed to the transport, and how the
  promise it returned settles.
\<close>

record exchange =
  sent :: http_request
  outcome :: "(result, thrown) promise"

definition corrupted :: string where
  "corrupted = ''Found corrupted Monero JSON RPC response.''"

text \<open>
  The dispatch primitive \<open>Wallet.request\<close>.  An omitted \<open>params\<close> (\<open>Undefined\<close>) takes
  the default \<open>{}\<close>.
\<close>

definition request :: "Wallet \<Rightarrow> transport \<Rightarrow> string \<Rightarrow> json \<Rightarrow> exchange" where
  "request this post method params0 =
    (let params = (if params0 = Undefined then Obj [] else params0);
         json = [(''jsonrpc'', Str ''2.0''), (''id'', Str ''0''), (''method'', Str method)];
         json = (if truthy params then json @ [(''params'', params)] else json);
         options = \<lparr>verb = ''POST'',
                    url = [Chars ''http://'', Chars (hostname this), Chars '':'',
                           Interpolated (port this), Chars ''/json_rpc''],
                    forever = True,
                    body = Obj json,
                    auth = (if user this \<noteq> []
                            then Some \<lparr>auth_user = user this, auth_pass = pass this,
                                       sendImmediately = False\<rparr>
                            else None)\<rparr>;
         (r, err) = protect (post options)
     in \<lparr>sent = options,
         outcome =
           (if truthy err then Fulfilled (Err (Raw err))
            else (case get r ''error'' of
              Inl e \<Rightarrow> Rejected e
            | Inr error \<Rightarrow>
                (if truthy error then
                   (case get error ''message'' of
                      Inl e \<Rightarrow> Rejected e
                    | Inr message \<Rightarrow>
                        (case new_Error message of
                           Inl e \<Rightarrow> Rejected e
                         | Inr made \<Rightarrow> Fulfilled (Err made)))
                 else
                   (case get r ''result'' of
                      Inl e \<Rightarrow> Rejected e
                    | Inr result \<Rightarrow>
                        (if \<not> truthy result then
                           (case new_Error (Str corrupted) of
                              Inl e \<Rightarrow> Rejected e
                            | Inr made \<Rightarrow> Fulfilled (Err made))
                         else Fulfilled (Ok result))))))\<rparr>)"

text \<open>
  The constructor.  An omitted argument is \<open>None\<close>.  It fires the warm-up call
  \<open>get_balance\<close> and does not look at its result; the exchange is returned beside the
  client only so that the request it sends can be inspected.
\<close>

definition constructor ::
  "transport \<Rightarrow> string option \<Rightarrow> number option \<Rightarrow> string option \<Rightarrow> string option
    \<Rightarrow> Wallet \<times> exchange" where
  "constructor post hostname0 port0 user0 pass0 =
    (let user1 = (case user0 of None \<Rightarrow> Some [] | Some u \<Rightarrow> Some u);
         pass1 = (case pass0 of None \<Rightarrow> Some [] | Some p \<Rightarrow> Some p);
         this = \<lparr>hostname = or_string hostname0 ''127.0.0.1'',
                 port = or_number port0 (Fin 18082),
                 user = or_string user1 [],
                 pass = or_string pass1 []\<rparr>
     in (this, request this post ''get_balance'' Undefined))"

text \<open>
  The block repeated in every field-unwrap operation:
  \<open>if (r.res) { return Result.ok(r.res.key) }  return r\<close>,
  after \<open>await\<close> has rethrown a rejection of the dispatch.
\<close>

definition unwrap :: "string \<Rightarrow> exchange \<Rightarrow> exchange" where
  "unwrap key x =
    (case outcome x of
       Rejected e \<Rightarrow> x
     | Fulfilled r \<Rightarrow>
         if truthy (res r) then
           (case get (res r) key of
              Inl e \<Rightarrow> x\<lparr>outcome := Rejected e\<rparr>
            | Inr v \<Rightarrow> x\<lparr>outcome := Fulfilled (Ok v)\<rparr>)
         else x)"

definition createWallet ::
  "Wallet \<Rightarrow> transport \<Rightarrow> string option \<Rightarrow> string option \<Rightarrow> string option \<Rightarrow> exchange" where
  "createWallet this post filename password language =
    (let method = ''create_wallet'';
         params = Obj [(''filename'', Str (or_string filename ''monero_wallet'')),
                       (''password'', Str (or_string password [])),
                       (''language'', Str (or_string language ''English''))]
     in request this post method params)"

definition openWallet ::
  "Wallet \<Rightarrow> transport \<Rightarrow> string option \<Rightarrow> string option \<Rightarrow> exchange" where
  "openWallet this post filename password =
    (let method = ''open_wallet'';
         params = Obj [(''filename'', Str (or_string filename ''monero_wallet'')),
                       (''password'', Str (or_string password []))]
     in request this post method params)"

definition stopWallet :: "Wallet \<Rightarrow> transport \<Rightarrow> exchange" where
  "stopWallet this post = (let method = ''stop_wallet'' in request this post method Undefined)"

definition getBalance :: "Wallet \<Rightarrow> transport \<Rightarrow> exchange" where
  "getBalance this post = (let method = ''get_balance'' in request this post method Undefined)"

definition address :: "Wallet \<Rightarrow> transport \<Rightarrow> exchange" where
  "address this post =
    (let method = ''get_address'';
         r = request this post method Undefined
     in unwrap ''address'' r)"

text \<open>
  The caller's destination objects live in a store: \<open>transfer\<close> and \<open>transferSplit\<close>
  write to them.  An array of destinations is the list of the references it holds.
\<close>

record destination =
  amount :: number
  address_of :: string

type_synonym ref = nat

type_synonym store = "ref \<Rightarrow> destination"

text \<open>\<open>destinations.forEach((dest) => dest.amount = convert(dest.amount))\<close>\<close>

fun forEach_convert :: "ref list \<Rightarrow> store \<Rightarrow> store" where
  "forEach_convert [] h = h"
| "forEach_convert (dest # rest) h =
     forEach_convert rest (h(dest := (h dest)\<lparr>amount := convert (amount (h dest))\<rparr>))"

text \<open>The array as it is serialised into the request body.\<close>

definition serialise :: "store \<Rightarrow> ref list \<Rightarrow> json" where
  "serialise h destinations =
     Arr (map (\<lambda>dest. Obj [(''amount'', Num (amount (h dest))),
                           (''address'', Str (address_of (h dest)))]) destinations)"

record transfer_options =
  mixin :: "number option"
  unlockTime :: "number option"
  pid :: "string option"
  doNotRelay :: "bool option"
  priority :: "number option"
  getTxHex :: "bool option"
  getTxKey :: "bool option"
  newAlgorithm :: "bool option"

text \<open>The default \<open>{}\<close> of an omitted \<open>options\<close> argument.\<close>

definition no_options :: transfer_options where
  "no_options = \<lparr>mixin = None, unlockTime = None, pid = None, doNotRelay = None,
                  priority = None, getTxHex = None, getTxKey = None, newAlgorithm = None\<rparr>"

definition transfer ::
  "Wallet \<Rightarrow> transport \<Rightarrow> store \<Rightarrow> ref list \<Rightarrow> transfer_options option
    \<Rightarrow> store \<times> exchange" where
  "transfer this post h destinations options0 =
    (let options = (case options0 of None \<Rightarrow> no_options | Some given \<Rightarrow> given);
         h = forEach_convert destinations h;
         method = ''transfer'';
         params = Obj [(''destinations'', serialise h destinations),
                       (''mixin'', Num (or_number (mixin options) (Fin 4))),
                       (''unlock_time'', Num (or_number (unlockTime options) (Fin 0))),
                       (''payment_id'', or_null (pid options)),
                       (''do_not_relay'', Bool (or_bool (doNotRelay options) False)),
                       (''priority'', Num (or_number (priority options) (Fin 0))),
                       (''get_tx_hex'', Bool (or_bool (getTxHex options) False)),
                       (''get_tx_key'', Bool (or_bool (getTxKey options) False))]
     in (h, request this post method params))"

definition transferSplit ::
  "Wallet \<Rightarrow> transport \<Rightarrow> store \<Rightarrow> ref list \<Rightarrow> transfer_options option
    \<Rightarrow> store \<times> exchange" where
  "transferSplit this post h destinations options0 =
    (let options = (case options0 of None \<Rightarrow> no_options | Some given \<Rightarrow> given);
         h = forEach_convert destinations h;
         method = ''transfer_split'';
         params = Obj [(''destinations'', serialise h destinations),
                       (''mixin'', Num (or_number (mixin options) (Fin 4))),
                       (''unlock_time'', Num (or_number (unlockTime options) (Fin 0))),
                       (''payment_id'', or_null (pid options)),
                       (''do_not_relay'', Bool (or_bool (doNotRelay options) False)),
                       (''priority'', Num (or_number (priority options) (Fin 0))),
                       (''get_tx_hex'', Bool (or_bool (getTxHex options) False)),
                       (''get_tx_key'', Bool (or_bool (getTxKey options) False)),
                       (''new_algorithm'', Bool (or_bool (newAlgorithm options) False))]
     in (h, request this post method params))"

definition sweepDust :: "Wallet \<Rightarrow> transport \<Rightarrow> exchange" where
  "sweepDust this post =
    (let method = ''sweep_dust'';
         r = request this post method Undefined
     in unwrap ''tx_hash_list'' r)"

definition sweepAll :: "Wallet \<Rightarrow> transport \<Rightarrow> string \<Rightarrow> exchange" where
  "sweepAll this post addr =
    (let method = ''sweep_all'';
         params = Obj [(''address'', Str addr)]
     in request this post method params)"

definition getPayments :: "Wallet \<Rightarrow> transport \<Rightarrow> string \<Rightarrow> exchange" where
  "getPayments this post pid0 =
    (let method = ''get_payments'';
         params = Obj [(''payment_id'', Str pid0)];
         r = request this post method params
     in unwrap ''payments'' r)"

definition getBulkPayments ::
  "Wallet \<Rightarrow> transport \<Rightarrow> string list \<Rightarrow> number \<Rightarrow> exchange" where
  "getBulkPayments this post pids minHeight =
    (let method = ''get_bulk_payments'';
         params = Obj [(''payment_ids'', Arr (map Str pids)),
                       (''min_block_height'', Num minHeight)];
         r = request this post method params
     in unwrap ''payments'' r)"

definition incomingTransfers :: "Wallet \<Rightarrow> transport \<Rightarrow> string \<Rightarrow> exchange" where
  "incomingTransfers this post type =
    (let method = ''incoming_transfers'';
         params = Obj [(''transfer_type'', Str type)];
         r = request this post method params
     in unwrap ''transfers'' r)"

definition queryKey :: "Wallet \<Rightarrow> transport \<Rightarrow> string \<Rightarrow> exchange" where
  "queryKey this post type =
    (let method = ''query_key'';
         params = Obj [(''key_type'', Str type)];
         r = request this post method params
     in unwrap ''key'' r)"

definition makeIntegratedAddress :: "Wallet \<Rightarrow> transport \<Rightarrow> string \<Rightarrow> exchange" where
  "makeIntegratedAddress this post pid0 =
    (let method = ''make_integrated_address'';
         params = Obj [(''payment_id'', Str pid0)];
         r = request this post method params
     in unwrap ''integrated_address'' r)"

definition splitIntegratedAddress :: "Wallet \<Rightarrow> transport \<Rightarrow> string \<Rightarrow> exchange" where
  "splitIntegratedAddress this post addr =
    (let method = ''split_integrated_address'';
         params = Obj [(''integrated_address'', Str addr)]
     in request this post method params)"

definition getHeight :: "Wallet \<Rightarrow> transport \<Rightarrow> exchange" where
  "getHeight this post =
    (let method = ''getheight'';
         r = request this post method Undefined
     in unwrap ''height'' r)"

section \<open>Every public operation\<close>

text \<open>A call of a public operation with its arguments, and running it.\<close>

datatype call =
    CreateWallet "string option" "string option" "string option"
  | OpenWallet "string option" "string option"
  | StopWallet
  | GetBalance
  | Address
  | Transfer "ref list" "transfer_options option"
  | TransferSplit "ref list" "transfer_options option"
  | SweepDust
  | SweepAll string
  | GetPayments string
  | GetBulkPayments "string list" number
  | IncomingTransfers string
  | QueryKey string
  | MakeIntegratedAddress string
  | SplitIntegratedAddress string
  | GetHeight

fun invoke :: "Wallet \<Rightarrow> transport \<Rightarrow> store \<Rightarrow> call \<Rightarrow> store \<times> exchange" where
  "invoke this post h (CreateWallet f p l) = (h, createWallet this post f p l)"
| "invoke this post h (OpenWallet f p) = (h, openWallet this post f p)"
| "invoke this post h StopWallet = (h, stopWallet this post)"
| "invoke this post h GetBalance = (h, getBalance this post)"
| "invoke this post h Address = (h, address this post)"
| "invoke this post h (Transfer ds opts) = transfer this post h ds opts"
| "invoke this post h (TransferSplit ds opts) = transferSplit this post h ds opts"
| "invoke this post h SweepDust = (h, sweepDust this post)"
| "invoke this post h (SweepAll a) = (h, sweepAll this post a)"
| "invoke this post h (GetPayments p) = (h, getPayments this post p)"
| "invoke this post h (GetBulkPayments ps m) = (h, getBulkPayments this post ps m)"
| "invoke this post h (IncomingTransfers t) = (h, incomingTransfers this post t)"
| "invoke this post h (QueryKey t) = (h, queryKey this post t)"
| "invoke this post h (MakeIntegratedAddress p) = (h, makeIntegratedAddress this post p)"
| "invoke this post h (SplitIntegratedAddress a) = (h, splitIntegratedAddress this post a)"
| "invoke this post h GetHeight = (h, getHeight this post)"

text \<open>
  The method inventory of the specification: the RPC method of each operation and the
  key its response is unwrapped at (\<open>None\<close> for a pass-through operation).
\<close>

fun rpc_method :: "call \<Rightarrow> string" where
  "rpc_method (CreateWallet f p l) = ''create_wallet''"
| "rpc_method (OpenWallet f p) = ''open_wallet''"
| "rpc_method StopWallet = ''stop_wallet''"
| "rpc_method GetBalance = ''get_balance''"
| "rpc_method Address = ''get_address''"
| "rpc_method (Transfer ds opts) = ''transfer''"
| "rpc_method (TransferSplit ds opts) = ''transfer_split''"
| "rpc_method SweepDust = ''sweep_dust''"
| "rpc_method (SweepAll a) = ''sweep_all''"
| "rpc_method (GetPayments p) = ''get_payments''"
| "rpc_method (GetBulkPayments ps m) = ''get_bulk_payments''"
| "rpc_method (IncomingTransfers t) = ''incoming_transfers''"
| "rpc_method (QueryKey t) = ''query_key''"
| "rpc_method (MakeIntegratedAddress p) = ''make_integrated_address''"
| "rpc_method (SplitIntegratedAddress a) = ''split_integrated_address''"
| "rpc_method GetHeight = ''getheight''"

fun unwrap_key :: "call \<Rightarrow> string option" where
  "unwrap_key Address = Some ''address''"
| "unwrap_key SweepDust = Some ''tx_hash_list''"
| "unwrap_key (GetPayments p) = Some ''payments''"
| "unwrap_key (GetBulkPayments ps m) = Some ''payments''"
| "unwrap_key (IncomingTransfers t) = Some ''transfers''"
| "unwrap_key (QueryKey t) = Some ''key''"
| "unwrap_key (MakeIntegratedAddress p) = Some ''integrated_address''"
| "unwrap_key GetHeight = Some ''height''"
| "unwrap_key c = None"

text \<open>Observations used to state the properties.\<close>

text \<open>\<open>field v k\<close> is the property \<open>k\<close> of a value that is not null: \<open>v.k\<close>.\<close>

definition field :: "json \<Rightarrow> string \<Rightarrow> json" where
  "field v k = (case get v k of Inl e \<Rightarrow> Undefined | Inr x \<Rightarrow> x)"

text \<open>The field \<open>k\<close> of the \<open>params\<close> object in the body of a request.\<close>

definition param :: "http_request \<Rightarrow> string \<Rightarrow> json" where
  "param r k = field (field (body r) ''params'') k"

text \<open>A stub daemon: the transport that answers every request the same way.\<close>

definition stub :: "(json, json) promise \<Rightarrow> transport" where
  "stub reply = (\<lambda>r. reply)"

text \<open>Concrete inputs for the examples.\<close>

text \<open>A store holding the given destination objects at the references 0, 1, ...\<close>

definition store_of :: "destination list \<Rightarrow> store" where
  "store_of ds = (\<lambda>r. if r < length ds then ds ! r else \<lparr>amount = Fin 0, address_of = []\<rparr>)"

text \<open>The client that \<open>new Wallet()\<close> builds.\<close>

definition local_wallet :: Wallet where
  "local_wallet = \<lparr>hostname = ''127.0.0.1'', port = Fin 18082, user = [], pass = []\<rparr>"

section \<open>Binary64 rounding\<close>

lemma bitlen_powi:
  assumes "0 < (p::int)"
  shows "(2::rat) powi (bitlen p - 1) \<le> of_int p" and "of_int p < (2::rat) powi bitlen p"
proof -
  from bitlen_bounds[OF assms] have a: "2 ^ nat (bitlen p - 1) \<le> p" and b: "p < 2 ^ nat (bitlen p)"
    by auto
  have ge: "1 \<le> bitlen p" using assms by (auto simp: bitlen_alt_def)
  have "(of_int (2 ^ nat (bitlen p - 1)) :: rat) \<le> of_int p" using a by (simp only: of_int_le_iff)
  then show "(2::rat) powi (bitlen p - 1) \<le> of_int p" using ge by (simp add: power_int_def)
  have "(of_int p :: rat) < of_int (2 ^ nat (bitlen p))" using b by (simp only: of_int_less_iff)
  then show "of_int p < (2::rat) powi bitlen p" using ge by (simp add: power_int_def)
qed

lemma ilog2_bounds:
  assumes "0 < a"
  shows "2 powi ilog2 a \<le> a" and "a < 2 powi (ilog2 a + 1)"
proof -
  obtain p q where pq: "quotient_of a = (p, q)" by (cases "quotient_of a")
  then have q: "0 < q" and a: "a = of_int p / of_int q"
    using quotient_of_denom_pos quotient_of_div by auto
  with assms have p: "0 < p" by (simp add: zero_less_divide_iff)
  define k where "k = bitlen p - bitlen q"
  note bp = bitlen_powi[OF p] and bq = bitlen_powi[OF q]
  have lo: "2 powi (k - 1) < a"
  proof -
    have "(2::rat) powi (k - 1) * of_int q < 2 powi (k - 1) * 2 powi bitlen q"
      using bq(2) by simp
    also have "\<dots> = 2 powi (bitlen p - 1)" by (simp add: k_def power_int_add[symmetric])
    also have "\<dots> \<le> of_int p" by (rule bp(1))
    finally show ?thesis using q by (simp add: a pos_less_divide_eq)
  qed
  have hi: "a < 2 powi (k + 1)"
  proof -
    have "of_int p < (2::rat) powi bitlen p" by (rule bp(2))
    also have "\<dots> = 2 powi (k + 1) * 2 powi (bitlen q - 1)"
      by (simp add: k_def power_int_add[symmetric])
    also have "\<dots> \<le> 2 powi (k + 1) * of_int q"
      using bq(1) by simp
    finally show ?thesis using q by (simp add: a pos_divide_less_eq)
  qed
  have il: "ilog2 a = (if 2 powi k \<le> a then k else k - 1)"
    by (simp add: ilog2_def pq k_def Let_def)
  show "2 powi ilog2 a \<le> a" using lo by (simp add: il)
  show "a < 2 powi (ilog2 a + 1)" using hi by (auto simp add: il not_le)
qed

lemma powi_lessD:
  assumes "(2::rat) powi m < 2 powi n"
  shows "m < n"
proof (rule ccontr)
  assume "\<not> m < n"
  then have "n \<le> m" by simp
  then have "(2::rat) powi n \<le> 2 powi m" by (rule power_int_increasing) simp
  with assms show False by simp
qed

lemma ilog2_unique:
  assumes "2 powi k \<le> a" and "a < 2 powi (k + 1)"
  shows "ilog2 a = k"
proof -
  have "0 < (2::rat) powi k" by simp
  with assms(1) have pos: "0 < a" by linarith
  note b = ilog2_bounds[OF pos]
  have "(2::rat) powi k < 2 powi (ilog2 a + 1)" using assms(1) b(2) by simp
  then have 1: "k < ilog2 a + 1" by (rule powi_lessD)
  have "(2::rat) powi ilog2 a < 2 powi (k + 1)" using assms(2) b(1) by simp
  then have 2: "ilog2 a < k + 1" by (rule powi_lessD)
  from 1 2 show ?thesis by simp
qed

lemma round_even_of_int: "round_even (of_int n) = n"
  by (simp add: round_even_def)

lemma round_even_le:
  assumes "x \<le> of_int N"
  shows "round_even x \<le> N"
proof (cases "x = of_int N")
  case True
  then show ?thesis by (simp add: round_even_of_int)
next
  case False
  with assms have "x < of_int N" by simp
  then have "\<lfloor>x\<rfloor> < N" by (simp add: floor_less_iff)
  then show ?thesis by (auto simp: round_even_def Let_def)
qed

lemma round_even_nonneg:
  assumes "0 \<le> x"
  shows "0 \<le> round_even x"
proof -
  from assms have "0 \<le> \<lfloor>x\<rfloor>" by simp
  then show ?thesis by (auto simp: round_even_def Let_def)
qed

lemma fl_representable:
  assumes "representable x"
  shows "fl x = Fin x"
proof (cases "x = 0")
  case True
  then show ?thesis by (simp add: fl_def)
next
  case False
  from assms obtain m e where x: "x = of_int m * 2 powi e" and m: "\<bar>m\<bar> < 2 ^ 53"
    and e: "- 1074 \<le> e" and big: "\<bar>x\<bar> < 2 ^ 1024"
    by (auto simp: representable_def)
  define a where "a = \<bar>x\<bar>"
  have a: "a = of_int \<bar>m\<bar> * 2 powi e" by (simp add: a_def x abs_mult)
  have apos: "0 < a" using False by (simp add: a_def)
  define e' where "e' = max (ilog2 a - 52) (- 1074)"
  have p2: "0 < (2::rat) powi e" by simp
  have "(of_int \<bar>m\<bar> :: rat) < of_int (2 ^ 53)" using m by (simp only: of_int_less_iff)
  with p2 have "a < of_int (2 ^ 53) * 2 powi e"
    unfolding a by (rule mult_strict_right_mono[rotated])
  also have "\<dots> = 2 powi (e + 53)" by (simp add: power_int_add)
  finally have "a < 2 powi (e + 53)" .
  with ilog2_bounds(1)[OF apos] have "(2::rat) powi ilog2 a < 2 powi (e + 53)" by simp
  then have "ilog2 a < e + 53" by (rule powi_lessD)
  with e have le: "e' \<le> e" by (simp add: e'_def)
  have "a / 2 powi e' = of_int \<bar>m\<bar> * 2 powi (e - e')"
    by (simp add: a power_int_diff)
  also have "\<dots> = of_int (\<bar>m\<bar> * 2 ^ nat (e - e'))"
    using le by (simp add: power_int_def)
  finally have q: "a / 2 powi e' = of_int (\<bar>m\<bar> * 2 ^ nat (e - e'))" .
  have r: "of_int (round_even (a / 2 powi e')) * 2 powi e' = a"
    unfolding q round_even_of_int using q by (simp add: field_simps)
  have "fl x = Fin (sgn x * a)"
    using False big r by (simp add: fl_def Let_def a_def[symmetric] e'_def[symmetric] not_le)
  then show ?thesis by (simp add: a_def sgn_mult_abs)
qed

lemma fl_range:
  assumes "fl q = Fin x"
  shows "representable x"
proof (cases "q = 0")
  case True
  with assms have "x = 0" by (simp add: fl_def)
  then have "x = of_int 0 * 2 powi 0" by simp
  then show ?thesis unfolding representable_def using \<open>x = 0\<close> by fastforce
next
  case False
  define a where "a = \<bar>q\<bar>"
  define e where "e = max (ilog2 a - 52) (- 1074)"
  define m where "m = round_even (a / 2 powi e)"
  define y where "y = of_int m * (2::rat) powi e"
  have apos: "0 < a" using False by (simp add: a_def)
  have fl: "fl q = (if 2 ^ 1024 \<le> y then (if 0 < q then PosInf else NegInf) else Fin (sgn q * y))"
    using False by (simp add: fl_def Let_def a_def e_def m_def y_def)
  with assms have small: "y < 2 ^ 1024" and x: "x = sgn q * y"
    by (auto split: if_splits)
  have p2: "0 < (2::rat) powi e" by simp
  have m0: "0 \<le> m" unfolding m_def using apos p2 by (intro round_even_nonneg) simp
  then have y0: "0 \<le> y" by (simp add: y_def)
  have "ilog2 a + 1 \<le> e + 53" by (simp add: e_def)
  then have "(2::rat) powi (ilog2 a + 1) \<le> 2 powi (e + 53)" by (rule power_int_increasing) simp
  with ilog2_bounds(2)[OF apos] have "a < 2 powi (e + 53)" by simp
  also have "\<dots> = of_int (2 ^ 53) * 2 powi e" by (simp add: power_int_add)
  finally have "a / 2 powi e \<le> of_int (2 ^ 53)" using p2 by (simp add: pos_divide_le_eq)
  then have m53: "m \<le> 2 ^ 53" unfolding m_def by (rule round_even_le)
  have ax: "\<bar>x\<bar> = y" using False y0 by (simp add: x abs_mult)
  have e1074: "- 1074 \<le> e" by (simp add: e_def)
  have "\<exists>m' e'. x = of_int m' * 2 powi e' \<and> \<bar>m'\<bar> < 2 ^ 53 \<and> - 1074 \<le> e'"
  proof (cases "m = 2 ^ 53")
    case True
    have "y = of_int (2 ^ 52) * 2 powi (e + 1)" by (simp add: y_def True power_int_add)
    then have "x = of_int (sgn (if 0 < q then 1 else - 1) * 2 ^ 52) * 2 powi (e + 1)"
      using False by (simp add: x sgn_if)
    moreover have "\<bar>sgn (if 0 < q then 1 else - 1) * (2::int) ^ 52\<bar> < 2 ^ 53" by simp
    moreover have "- 1074 \<le> e + 1" using e1074 by simp
    ultimately show ?thesis by blast
  next
    case F: False
    have "x = of_int ((if 0 < q then 1 else - 1) * m) * 2 powi e"
      using False by (simp add: x y_def sgn_if)
    moreover have "\<bar>(if 0 < q then 1 else - 1) * m\<bar> < 2 ^ 53" using F m0 m53 by (simp add: abs_mult)
    ultimately show ?thesis using e1074 by blast
  qed
  then show ?thesis unfolding representable_def using ax small by simp
qed

lemma representable_integer:
  assumes "representable x" and "2 ^ 53 \<le> \<bar>x\<bar>"
  shows "x = of_int (round x)"
proof -
  from assms obtain m e where x: "x = of_int m * 2 powi e" and m: "\<bar>m\<bar> < 2 ^ 53"
    by (auto simp: representable_def)
  have "0 \<le> e"
  proof (rule ccontr)
    assume "\<not> 0 \<le> e"
    then have "e \<le> 0" by simp
    then have "(2::rat) powi e \<le> 2 powi 0" by (rule power_int_increasing) simp
    then have le1: "(2::rat) powi e \<le> 1" by simp
    have "\<bar>x\<bar> = of_int \<bar>m\<bar> * 2 powi e" by (simp add: x abs_mult)
    also have "\<dots> \<le> of_int \<bar>m\<bar> * 1" using le1 by (intro mult_left_mono) simp_all
    also have "\<dots> < of_int (2 ^ 53)" using m by (simp only: of_int_less_iff mult_1_right)
    finally show False using assms(2) by simp
  qed
  then have "x = of_int (m * 2 ^ nat e)" by (simp add: x power_int_def)
  then obtain n where "x = of_int n" ..
  then show ?thesis by simp
qed

lemma representable_round:
  assumes "representable x"
  shows "representable (of_int (round x))"
proof (cases "2 ^ 53 \<le> \<bar>x\<bar>")
  case True
  with assms show ?thesis using representable_integer by metis
next
  case False
  then have lt: "\<bar>x\<bar> < 2 ^ 53" by simp
  have "\<bar>of_int (round x) - x\<bar> \<le> 1 / 2" using of_int_round_abs_le[of x] by simp
  with lt have "\<bar>(of_int (round x) :: rat)\<bar> < 2 ^ 53 + 1" by linarith
  then have "(of_int \<bar>round x\<bar> :: rat) < of_int (2 ^ 53 + 1)" by simp
  then have "\<bar>round x\<bar> < 2 ^ 53 + 1" by (simp only: of_int_less_iff)
  then have le: "\<bar>round x\<bar> \<le> 2 ^ 53" by simp
  have small: "\<bar>(of_int (round x) :: rat)\<bar> < 2 ^ 1024"
  proof -
    have "(of_int \<bar>round x\<bar> :: rat) \<le> of_int (2 ^ 53)" using le by (simp only: of_int_le_iff)
    then show ?thesis by simp
  qed
  have "\<exists>m e. (of_int (round x) :: rat) = of_int m * 2 powi e \<and> \<bar>m\<bar> < 2 ^ 53 \<and> - 1074 \<le> e"
  proof (cases "\<bar>round x\<bar> = 2 ^ 53")
    case True
    then have "round x = 2 ^ 53 \<or> round x = - (2 ^ 53)" by linarith
    then have "(of_int (round x) :: rat) = of_int (sgn (round x) * 2 ^ 52) * 2 powi 1"
      by auto
    moreover have "\<bar>sgn (round x) * (2::int) ^ 52\<bar> < 2 ^ 53" by (simp add: abs_mult abs_sgn_eq)
    ultimately show ?thesis by (metis (no_types) neg_numeral_le_one)
  next
    case F: False
    with le have "\<bar>round x\<bar> < 2 ^ 53" by simp
    moreover have "(of_int (round x) :: rat) = of_int (round x) * 2 powi 0" by simp
    ultimately show ?thesis by (metis (no_types) neg_numeral_le_zero)
  qed
  with small show ?thesis by (simp add: representable_def)
qed

text \<open>Evaluating \<open>fl\<close> once the binary exponent is known.\<close>

lemma round_even_bound:
  assumes "0 < a" and "a < 2 powi (k + 1)" and "k - 52 \<le> e"
  shows "of_int (round_even (a / 2 powi e)) * (2::rat) powi e \<le> 2 powi (e + 53)"
proof -
  have p2: "0 < (2::rat) powi e" by simp
  from assms(3) have "k + 1 \<le> e + 53" by simp
  then have "(2::rat) powi (k + 1) \<le> 2 powi (e + 53)" by (rule power_int_increasing) simp
  with assms(2) have "a < 2 powi (e + 53)" by simp
  also have "\<dots> = of_int (2 ^ 53) * 2 powi e" by (simp add: power_int_add)
  finally have "a / 2 powi e \<le> of_int (2 ^ 53)" using p2 by (simp add: pos_divide_le_eq)
  then have "round_even (a / 2 powi e) \<le> 2 ^ 53" by (rule round_even_le)
  then have "(of_int (round_even (a / 2 powi e)) :: rat) \<le> of_int (2 ^ 53)"
    by (simp only: of_int_le_iff)
  then have "of_int (round_even (a / 2 powi e)) * (2::rat) powi e \<le> of_int (2 ^ 53) * 2 powi e"
    using p2 by (simp only: mult_le_cancel_right_pos)
  then show ?thesis by (simp add: power_int_add)
qed

lemma fl_by_exponent:
  assumes "2 powi k \<le> \<bar>q\<bar>" and "\<bar>q\<bar> < 2 powi (k + 1)" and "- 1022 \<le> k" and "k < 1023"
  shows "fl q = Fin (sgn q * (of_int (round_even (\<bar>q\<bar> / 2 powi (k - 52))) * 2 powi (k - 52)))"
proof -
  have "0 < (2::rat) powi k" by simp
  with assms(1) have pos: "0 < \<bar>q\<bar>" by linarith
  then have q: "q \<noteq> 0" by simp
  have k: "ilog2 \<bar>q\<bar> = k" using assms(1,2) by (rule ilog2_unique)
  have e: "max (k - 52) (- 1074) = k - 52" using assms(3) by simp
  have "of_int (round_even (\<bar>q\<bar> / 2 powi (k - 52))) * (2::rat) powi (k - 52) \<le> 2 powi (k - 52 + 53)"
    using pos assms(2) by (rule round_even_bound) simp
  also have "\<dots> \<le> 2 powi 1023" using assms(4) by (intro power_int_increasing) simp_all
  also have "\<dots> < 2 ^ 1024" by simp
  finally have "\<not> 2 ^ 1024 \<le> of_int (round_even (\<bar>q\<bar> / 2 powi (k - 52))) * (2::rat) powi (k - 52)"
    by simp
  then show ?thesis using q by (simp add: fl_def Let_def k e)
qed

lemma fl_of_int:
  assumes "\<bar>n\<bar> < 2 ^ 53"
  shows "fl (of_int n) = Fin (of_int n)"
proof -
  have "(of_int n :: rat) = of_int n * 2 powi 0" by simp
  moreover have "\<bar>of_int n :: rat\<bar> < 2 ^ 1024"
  proof -
    have "(of_int \<bar>n\<bar> :: rat) < of_int (2 ^ 53)" using assms by (simp only: of_int_less_iff)
    then show ?thesis by simp
  qed
  ultimately have "representable (of_int n)"
    unfolding representable_def using assms by (metis (no_types) neg_numeral_le_zero)
  then show ?thesis by (rule fl_representable)
qed

lemma fl_numeral:
  assumes "(numeral n :: int) < 2 ^ 53"
  shows "fl (numeral n) = Fin (numeral n)"
proof -
  have "\<bar>numeral n :: int\<bar> < 2 ^ 53" using assms by (simp only: abs_numeral)
  then have "fl (of_int (numeral n)) = Fin (of_int (numeral n))" by (rule fl_of_int)
  then show ?thesis by (simp only: of_int_numeral)
qed

lemma floor_numeral_quotient:
  "\<lfloor>(numeral a :: rat) / numeral b\<rfloor> = numeral a div numeral b"
  using floor_divide_of_int_eq [of "numeral a" "numeral b", where ?'a = rat] by simp

lemma fl_one: "fl 1 = Fin 1"
  using fl_of_int [of 1] by simp

text \<open>\<open>convert\<close> rounds the binary64 product to the nearest integer.\<close>

lemma fl_nonneg:
  assumes "0 \<le> q" and "fl q = Fin x"
  shows "0 \<le> x"
proof (cases "q = 0")
  case True
  with assms show ?thesis by (simp add: fl_def)
next
  case False
  with assms(1) have q: "0 < q" by simp
  define e where "e = max (ilog2 \<bar>q\<bar> - 52) (- 1074)"
  have "0 \<le> \<bar>q\<bar> / 2 powi e" by simp
  then have "0 \<le> round_even (\<bar>q\<bar> / 2 powi e)" by (rule round_even_nonneg)
  then have "0 \<le> of_int (round_even (\<bar>q\<bar> / 2 powi e)) * (2::rat) powi e" by simp
  with assms(2) q show ?thesis
    by (auto simp add: fl_def Let_def e_def split: if_splits)
qed

lemma nearest_is_round:
  fixes x :: rat
  shows "(if x - of_int \<lfloor>x\<rfloor> < of_int (\<lfloor>x\<rfloor> + 1) - x then \<lfloor>x\<rfloor> else \<lfloor>x\<rfloor> + 1) = round x"
proof -
  have "round x = (if x - of_int \<lfloor>x\<rfloor> < 1 / 2 then \<lfloor>x\<rfloor> else \<lfloor>x\<rfloor> + 1)"
    unfolding round_def by (auto simp add: floor_eq_iff) linarith+
  then show ?thesis by (auto split: if_splits)
qed

lemma toFixed0_below:
  assumes "0 \<le> x" and "\<not> 10 ^ 21 \<le> x"
  shows "toFixed0 (Fin x) = Digits (round x)"
proof -
  have "toFixed0 (Fin x) =
          Digits (if x - of_int \<lfloor>x\<rfloor> < of_int (\<lfloor>x\<rfloor> + 1) - x then \<lfloor>x\<rfloor> else \<lfloor>x\<rfloor> + 1)"
    using assms by (simp add: toFixed0_def Let_def)
  then show ?thesis by (simp only: nearest_is_round)
qed

lemma convert_Fin:
  assumes "0 \<le> a"
  shows "convert (Fin a) =
           (case multiply (Fin a) (Fin (10 ^ 12)) of Fin x \<Rightarrow> Fin (of_int (round x)) | v \<Rightarrow> v)"
proof (cases "fl (a * 10 ^ 12)")
  case (Fin x)
  then have rep: "representable x" by (rule fl_range)
  from assms have "0 \<le> a * 10 ^ 12" by simp
  then have x0: "0 \<le> x" using Fin by (rule fl_nonneg)
  show ?thesis
  proof (cases "10 ^ 21 \<le> x")
    case True
    then have "(2::rat) ^ 53 \<le> \<bar>x\<bar>" by simp
    with rep have "x = of_int (round x)" by (rule representable_integer)
    with True x0 Fin show ?thesis
      by (simp add: convert_def toFixed0_def)
  next
    case False
    have "fl (of_int (round x)) = Fin (of_int (round x))"
      using rep by (intro fl_representable representable_round)
    with False x0 Fin show ?thesis
      by (simp add: convert_def toFixed0_below)
  qed
qed (simp_all add: convert_def toFixed0_def)

lemma multiply_example:
  "multiply (Fin (4951760157141521 / 4951760157141521099596496896)) (Fin (10 ^ 12)) = Fin 1"
  using fl_by_exponent [of "- 1" "4951760157141521 / 4951760157141521099596496896 * 10 ^ 12"]
  by (simp add: round_even_def Let_def floor_numeral_quotient)

lemma convert_one: "convert (Fin 1) = Fin 1000000000000"
  by (simp add: convert_def toFixed0_def fl_numeral)

lemma convert_again: "convert (Fin 1000000000000) = Fin 999999999999999983222784"
  using fl_by_exponent [of 79 "10 ^ 24"]
  by (simp add: convert_def toFixed0_def round_even_def Let_def floor_numeral_quotient)

lemma product_example:
  "multiply (Fin (4951760157141523 / 549755813888)) (Fin (10 ^ 12)) = Fin 9007199254740996"
  using fl_by_exponent [of 53 "4951760157141523 / 549755813888 * 10 ^ 12"]
  by (simp add: round_even_def Let_def floor_numeral_quotient)

lemma fl_example: "fl 9007199254740996 = Fin 9007199254740996"
  using fl_by_exponent [of 53 9007199254740996]
  by (simp add: round_even_def Let_def floor_numeral_quotient)

lemma convert_example:
  "convert (Fin (4951760157141523 / 549755813888)) = Fin 9007199254740996"
  using product_example fl_example
  by (simp add: convert_def toFixed0_below)

section \<open>The dispatch primitive and the operations built on it\<close>

lemma new_Error_Str [simp]: "new_Error (Str s) = Inr (NewError (Str s))"
  by (simp add: new_Error_def)

lemma new_Error_eq_Str:
  "new_Error v = Inr (NewError (Str t)) \<longleftrightarrow> v \<noteq> Undefined \<and> ToString v = Inr t"
  by (auto simp add: new_Error_def split: sum.splits)

lemma sent_request:
  "sent (request this post m p) =
     \<lparr>verb = ''POST'',
      url = [Chars ''http://'', Chars (hostname this), Chars '':'',
             Interpolated (port this), Chars ''/json_rpc''],
      forever = True,
      body = Obj ([(''jsonrpc'', Str ''2.0''), (''id'', Str ''0''), (''method'', Str m)] @
                  (if p = Undefined then [(''params'', Obj [])]
                   else if truthy p then [(''params'', p)] else [])),
      auth = (if user this \<noteq> []
              then Some \<lparr>auth_user = user this, auth_pass = pass this, sendImmediately = False\<rparr>
              else None)\<rparr>"
  by (simp add: request_def Let_def case_prod_beta)

lemma sent_unwrap: "sent (unwrap k x) = sent x"
  by (simp add: unwrap_def split: promise.split sum.split)

lemma outcome_request:
  "outcome (request this post m p) =
     (case protect (post (sent (request this post m p))) of
        (r, err) \<Rightarrow>
          if truthy err then Fulfilled (Err (Raw err))
          else (case get r ''error'' of
            Inl e \<Rightarrow> Rejected e
          | Inr error \<Rightarrow>
              (if truthy error then
                 (case get error ''message'' of
                    Inl e \<Rightarrow> Rejected e
                  | Inr message \<Rightarrow>
                      (case new_Error message of
                         Inl e \<Rightarrow> Rejected e
                       | Inr made \<Rightarrow> Fulfilled (Err made)))
               else
                 (case get r ''result'' of
                    Inl e \<Rightarrow> Rejected e
                  | Inr result \<Rightarrow>
                      (if \<not> truthy result then
                         (case new_Error (Str corrupted) of
                            Inl e \<Rightarrow> Rejected e
                          | Inr made \<Rightarrow> Fulfilled (Err made))
                       else Fulfilled (Ok result))))))"
  by (simp add: request_def Let_def case_prod_beta split del: if_split)

lemma get_field:
  "get v k = (if v = Undefined \<or> v = Null then Inl TypeError else Inr (field v k))"
  by (cases v) (simp_all add: field_def)

lemma truthy_not_null: "truthy v \<Longrightarrow> v \<noteq> Undefined \<and> v \<noteq> Null"
  by (cases v) simp_all

lemma outcome_request_rejected:
  assumes "post (sent (request this post m p)) = Rejected e"
  shows "outcome (request this post m p) =
           (if truthy e then Fulfilled (Err (Raw e)) else Rejected TypeError)"
  by (simp add: outcome_request assms)

lemma outcome_request_fulfilled:
  assumes "post (sent (request this post m p)) = Fulfilled env"
  shows "outcome (request this post m p) =
           (if env = Undefined \<or> env = Null then Rejected TypeError
            else if truthy (field env ''error'')
              then (case new_Error (field (field env ''error'') ''message'') of
                      Inl e \<Rightarrow> Rejected e
                    | Inr made \<Rightarrow> Fulfilled (Err made))
            else if truthy (field env ''result'') then Fulfilled (Ok (field env ''result''))
            else Fulfilled (Err (NewError (Str corrupted))))"
  by (auto simp add: outcome_request assms get_field new_Error_Str dest: truthy_not_null)

lemma outcome_unwrap:
  "outcome (unwrap k x) =
     (case outcome x of
        Fulfilled (Ok v) \<Rightarrow> if truthy v then Fulfilled (Ok (field v k)) else Fulfilled (Ok v)
      | other \<Rightarrow> other)"
  by (auto simp add: unwrap_def get_field split: promise.split result.split dest: truthy_not_null)

lemma invoke_shape:
  "\<exists>p. (p = Undefined \<or> (\<exists>kvs. p = Obj kvs)) \<and>
       snd (invoke this post h c) =
         (case unwrap_key c of
            None \<Rightarrow> request this post (rpc_method c) p
          | Some k \<Rightarrow> unwrap k (request this post (rpc_method c) p))"
  by (cases c)
     (auto simp add: createWallet_def openWallet_def stopWallet_def getBalance_def address_def
        transfer_def transferSplit_def sweepDust_def sweepAll_def getPayments_def
        getBulkPayments_def incomingTransfers_def queryKey_def makeIntegratedAddress_def
        splitIntegratedAddress_def getHeight_def Let_def)

lemma param_request_Obj:
  "param (sent (request this post m (Obj kvs))) k =
     (case map_of kvs k of None \<Rightarrow> Undefined | Some v \<Rightarrow> v)"
  by (simp add: sent_request param_def field_def)

lemma sent_invoke_auth:
  "auth (sent (snd (invoke this post h c))) =
     (if user this \<noteq> []
      then Some \<lparr>auth_user = user this, auth_pass = pass this, sendImmediately = False\<rparr>
      else None)"
proof -
  obtain p where "snd (invoke this post h c) =
         (case unwrap_key c of
            None \<Rightarrow> request this post (rpc_method c) p
          | Some k \<Rightarrow> unwrap k (request this post (rpc_method c) p))"
    using invoke_shape by blast
  then show ?thesis
    by (simp add: sent_unwrap sent_request split: option.split)
qed

lemma snd_transfer:
  "snd (transfer this post h ds given) =
     request this post ''transfer''
       (let options = (case given of None \<Rightarrow> no_options | Some g \<Rightarrow> g);
            h = forEach_convert ds h
        in Obj [(''destinations'', serialise h ds),
                (''mixin'', Num (or_number (mixin options) (Fin 4))),
                (''unlock_time'', Num (or_number (unlockTime options) (Fin 0))),
                (''payment_id'', or_null (pid options)),
                (''do_not_relay'', Bool (or_bool (doNotRelay options) False)),
                (''priority'', Num (or_number (priority options) (Fin 0))),
                (''get_tx_hex'', Bool (or_bool (getTxHex options) False)),
                (''get_tx_key'', Bool (or_bool (getTxKey options) False))])"
  by (simp add: transfer_def Let_def)

lemma snd_transferSplit:
  "snd (transferSplit this post h ds given) =
     request this post ''transfer_split''
       (let options = (case given of None \<Rightarrow> no_options | Some g \<Rightarrow> g);
            h = forEach_convert ds h
        in Obj [(''destinations'', serialise h ds),
                (''mixin'', Num (or_number (mixin options) (Fin 4))),
                (''unlock_time'', Num (or_number (unlockTime options) (Fin 0))),
                (''payment_id'', or_null (pid options)),
                (''do_not_relay'', Bool (or_bool (doNotRelay options) False)),
                (''priority'', Num (or_number (priority options) (Fin 0))),
                (''get_tx_hex'', Bool (or_bool (getTxHex options) False)),
                (''get_tx_key'', Bool (or_bool (getTxKey options) False)),
                (''new_algorithm'', Bool (or_bool (newAlgorithm options) False))])"
  by (simp add: transferSplit_def Let_def)

lemmas defaulting =
  createWallet_def openWallet_def snd_transfer snd_transferSplit Let_def param_request_Obj
  or_string_def or_number_def or_bool_def or_null_def no_options_def


text \<open>
  How the promise of any public operation settles, from the reply of the transport to
  the request it sent.
\<close>

lemma outcome_invoke:
  "outcome (snd (invoke this post h c)) =
     (case protect (post (sent (snd (invoke this post h c)))) of
        (r, err) \<Rightarrow>
          if truthy err then Fulfilled (Err (Raw err))
          else if r = Undefined \<or> r = Null then Rejected TypeError
          else if truthy (field r ''error'')
            then (case new_Error (field (field r ''error'') ''message'') of
                    Inl e \<Rightarrow> Rejected e
                  | Inr made \<Rightarrow> Fulfilled (Err made))
          else if truthy (field r ''result'')
            then Fulfilled (Ok (case unwrap_key c of
                                  None \<Rightarrow> field r ''result''
                                | Some k \<Rightarrow> field (field r ''result'') k))
          else Fulfilled (Err (NewError (Str corrupted))))"
proof -
  obtain p where s: "snd (invoke this post h c) =
         (case unwrap_key c of
            None \<Rightarrow> request this post (rpc_method c) p
          | Some k \<Rightarrow> unwrap k (request this post (rpc_method c) p))"
    using invoke_shape by blast
  let ?x = "request this post (rpc_method c) p"
  have 1: "sent (snd (invoke this post h c)) = sent ?x"
    by (simp add: s sent_unwrap split: option.split)
  have 2: "outcome ?x =
          (case protect (post (sent ?x)) of
             (r, err) \<Rightarrow>
               if truthy err then Fulfilled (Err (Raw err))
               else if r = Undefined \<or> r = Null then Rejected TypeError
               else if truthy (field r ''error'')
                 then (case new_Error (field (field r ''error'') ''message'') of
                         Inl e \<Rightarrow> Rejected e
                       | Inr made \<Rightarrow> Fulfilled (Err made))
               else if truthy (field r ''result'') then Fulfilled (Ok (field r ''result''))
               else Fulfilled (Err (NewError (Str corrupted))))"
    by (subst outcome_request)
       (auto simp add: get_field new_Error_Str split: prod.split dest: truthy_not_null)
  have 3: "outcome (snd (invoke this post h c)) =
          (case unwrap_key c of
             None \<Rightarrow> outcome ?x
           | Some k \<Rightarrow> outcome (unwrap k ?x))"
    by (simp add: s split: option.split)
  show ?thesis
    unfolding 3 1 outcome_unwrap 2
    by (simp split: option.split prod.split sum.split)
qed

lemma field_Obj: "field (Obj kvs) k = (case map_of kvs k of None \<Rightarrow> Undefined | Some v \<Rightarrow> v)"
  by (simp add: field_def)

lemma result_unless_null_body:
  assumes "post (sent (snd (invoke this post h c))) = Fulfilled env \<and> env \<noteq> Undefined \<and> env \<noteq> Null
             \<and> (truthy (field env ''error'') \<longrightarrow>
                  (\<exists>made. new_Error (field (field env ''error'') ''message'') = Inr made))
           \<or> post (sent (snd (invoke this post h c))) = Rejected e \<and> truthy e"
  shows "\<exists>r. outcome (snd (invoke this post h c)) = Fulfilled r"
  using assms by (auto simp add: outcome_invoke)

lemma unconvertible_message_throws:
  "outcome (getBalance local_wallet
      (stub (Fulfilled (Obj [(''error'',
               Obj [(''message'', Obj [(''toString'', Num (Fin 1))])])]))))
   = Rejected TypeError"
  by (simp add: getBalance_def outcome_request stub_def new_Error_def)

lemma unwrap_propagates_Err:
  assumes "outcome x = Fulfilled (Err e)"
  shows "outcome (unwrap k x) = Fulfilled (Err e)"
  by (simp add: outcome_unwrap assms)

text \<open>The store after \<open>transfer\<close>, and the array the request carries.\<close>

lemma forEach_convert_amount:
  "amount (forEach_convert ds h r) = (convert ^^ count_list ds r) (amount (h r))"
  by (induction ds arbitrary: h) (simp_all add: funpow_swap1)

lemma forEach_convert_address: "address_of (forEach_convert ds h r) = address_of (h r)"
  by (induction ds arbitrary: h) simp_all

lemma count_list_distinct:
  "distinct ds \<Longrightarrow> count_list ds r = (if r \<in> set ds then 1 else 0)"
  by (induction ds) auto

lemma fst_transfer: "fst (transfer this post h ds given) = forEach_convert ds h"
  by (simp add: transfer_def Let_def)

lemma fst_transferSplit: "fst (transferSplit this post h ds given) = forEach_convert ds h"
  by (simp add: transferSplit_def Let_def)

lemma destinations_transfer:
  "param (sent (snd (transfer this post h ds given))) ''destinations'' =
     serialise (forEach_convert ds h) ds"
  by (simp add: snd_transfer Let_def param_request_Obj)

lemma destinations_transferSplit:
  "param (sent (snd (transferSplit this post h ds given))) ''destinations'' =
     serialise (forEach_convert ds h) ds"
  by (simp add: snd_transferSplit Let_def param_request_Obj)

lemma serialise_forEach:
  "serialise (forEach_convert ds h) ds =
     Arr (map (\<lambda>d. Obj [(''amount'', Num ((convert ^^ count_list ds d) (amount (h d)))),
                        (''address'', Str (address_of (h d)))]) ds)"
  by (simp add: serialise_def forEach_convert_amount forEach_convert_address)

lemma store_of_first: "store_of [x] 0 = x"
  by (simp add: store_of_def)

section \<open>The claims\<close>

text \<open>
  C1, as amended.  When the transport fulfils with an envelope whose \<open>error\<close> field is an
  object with a numeric \<open>code\<close> and a \<open>message\<close> \<open>m\<close>, every public operation returns
  \<open>Err\<close> carrying \<open>new Error(m)\<close>: the message of the server verbatim, whichever operation
  was called.  The code is not part of what is returned.
\<close>

theorem protocol_error_carries_message:
  assumes "post (sent (snd (invoke this post h c))) = Fulfilled (Obj kvs)"
    and "map_of kvs ''error'' = Some (Obj ekvs)"
    and "map_of ekvs ''code'' = Some (Num code)"
    and "map_of ekvs ''message'' = Some (Str m)"
  shows "outcome (snd (invoke this post h c)) = Fulfilled (Err (NewError (Str m)))"
  by (simp add: outcome_invoke assms field_Obj)

text \<open>An \<open>openWallet\<close> refused by the daemon with code \<open>-1\<close>.\<close>

theorem protocol_error_carries_message_witness:
  "outcome (snd (invoke local_wallet
      (stub (Fulfilled (Obj [(''error'', Obj [(''code'', Num (Fin (- 1))),
                                               (''message'', Str ''invalid password'')])])))
      (store_of []) (OpenWallet None None)))
   = Fulfilled (Err (NewError (Str ''invalid password'')))"
  using protocol_error_carries_message [of
      "stub (Fulfilled (Obj [(''error'', Obj [(''code'', Num (Fin (- 1))),
                                               (''message'', Str ''invalid password'')])]))"
      local_wallet "store_of []" "OpenWallet None None"
      "[(''error'', Obj [(''code'', Num (Fin (- 1))), (''message'', Str ''invalid password'')])]"
      "[(''code'', Num (Fin (- 1))), (''message'', Str ''invalid password'')]"
      "Fin (- 1)" "''invalid password''"]
  by (simp add: stub_def)

text \<open>
  C1 as stated fails: the returned \<open>Err\<close> does not carry the code.  Two envelopes that
  differ in the code only, \<open>-1\<close> and \<open>-2\<close>, give the same \<open>Err\<close>, so the code cannot be
  read back from it.
\<close>

theorem protocol_error_code_is_dropped:
  "outcome (getBalance local_wallet
      (stub (Fulfilled (Obj [(''error'', Obj [(''code'', Num (Fin (- 1))),
                                               (''message'', Str ''denied'')])]))))
   = Fulfilled (Err (NewError (Str ''denied'')))
   \<and> outcome (getBalance local_wallet
      (stub (Fulfilled (Obj [(''error'', Obj [(''code'', Num (Fin (- 2))),
                                               (''message'', Str ''denied'')])]))))
   = Fulfilled (Err (NewError (Str ''denied'')))"
  by (simp add: getBalance_def outcome_request stub_def)

text \<open>
  C2, as amended.  When the transport fulfils with an envelope \<open>{result: X}\<close> without an
  \<open>error\<close> field and \<open>X\<close> is truthy, the dispatch primitive returns \<open>Ok(X)\<close>, a
  pass-through operation returns \<open>Ok(X)\<close>, and a field-unwrap operation returns \<open>Ok\<close> of
  the property of \<open>X\<close> at its key in the method inventory (\<open>undefined\<close> when \<open>X\<close> has no
  such property).
\<close>

theorem truthy_result_is_returned:
  assumes "map_of kvs ''error'' = None" and "map_of kvs ''result'' = Some X" and "truthy X"
  shows "(post (sent (request this post m p)) = Fulfilled (Obj kvs) \<longrightarrow>
            outcome (request this post m p) = Fulfilled (Ok X))
       \<and> (post (sent (snd (invoke this post h c))) = Fulfilled (Obj kvs) \<longrightarrow>
            outcome (snd (invoke this post h c)) =
              Fulfilled (Ok (case unwrap_key c of None \<Rightarrow> X | Some k \<Rightarrow> field X k)))"
  using assms by (simp add: outcome_invoke outcome_request_fulfilled field_Obj split: option.split)

text \<open>
  The balance query returns the payload as it is, and the address lookup discards the
  wrapper key.
\<close>

theorem truthy_result_is_returned_witness:
  "outcome (snd (invoke local_wallet
      (stub (Fulfilled (Obj [(''result'', Obj [(''balance'', Num (Fin 1000)),
                                                (''unlocked_balance'', Num (Fin 500))])])))
      (store_of []) GetBalance))
   = Fulfilled (Ok (Obj [(''balance'', Num (Fin 1000)), (''unlocked_balance'', Num (Fin 500))]))
   \<and> outcome (snd (invoke local_wallet
      (stub (Fulfilled (Obj [(''result'', Obj [(''address'', Str ''4abc'')])])))
      (store_of []) Address))
   = Fulfilled (Ok (Str ''4abc''))"
  using truthy_result_is_returned [of
      "[(''result'', Obj [(''balance'', Num (Fin 1000)), (''unlocked_balance'', Num (Fin 500))])]"
      "Obj [(''balance'', Num (Fin 1000)), (''unlocked_balance'', Num (Fin 500))]"
      "stub (Fulfilled (Obj [(''result'', Obj [(''balance'', Num (Fin 1000)),
                                                (''unlocked_balance'', Num (Fin 500))])]))"
      local_wallet "''get_balance''" Undefined "store_of []" GetBalance]
    truthy_result_is_returned [of
      "[(''result'', Obj [(''address'', Str ''4abc'')])]"
      "Obj [(''address'', Str ''4abc'')]"
      "stub (Fulfilled (Obj [(''result'', Obj [(''address'', Str ''4abc'')])]))"
      local_wallet "''get_address''" Undefined "store_of []" Address]
  by (simp add: stub_def field_Obj)

text \<open>
  C2 as stated fails for a falsy payload: on the envelope \<open>{result: 0}\<close> the primitive
  returns the \<open>Err\<close> of a corrupted response, not \<open>Ok(0)\<close>.
\<close>

theorem falsy_result_is_not_returned:
  "outcome (request local_wallet (stub (Fulfilled (Obj [(''result'', Num (Fin 0))])))
      ''getheight'' Undefined)
   = Fulfilled (Err (NewError (Str corrupted)))
   \<and> outcome (request local_wallet (stub (Fulfilled (Obj [(''result'', Num (Fin 0))])))
      ''getheight'' Undefined)
   \<noteq> Fulfilled (Ok (Num (Fin 0)))"
  by (simp add: outcome_request stub_def)

text \<open>
  C3, as amended.  For every response body other than \<open>null\<close> and \<open>undefined\<close> whose
  \<open>error\<close> is falsy and whose \<open>result\<close> is falsy (absent, \<open>null\<close>, \<open>false\<close>, 0, NaN or
  the empty string), in particular for every object body with neither field, every public
  operation returns \<open>Err\<close> of \<open>new Error\<close> with the fixed text
  \<open>Found corrupted Monero JSON RPC response.\<close>  For a body other than \<open>null\<close> and
  \<open>undefined\<close> the operation returns that \<open>Err\<close> only then, or when the truthy \<open>error\<close>
  has a message that \<open>new Error\<close> converts to the same text.  A rejection of the transport
  with a truthy reason comes first and gives \<open>Err\<close> of the reason itself; a truthy \<open>error\<close>
  comes next and gives \<open>Err\<close> of \<open>new Error\<close> of its message, whatever \<open>result\<close> is (the
  promise is rejected instead when the message cannot be converted to a string).
\<close>

theorem malformed_response:
  "(post (sent (snd (invoke this post h c))) = Fulfilled env \<and>
      env \<noteq> Undefined \<and> env \<noteq> Null \<longrightarrow>
      (outcome (snd (invoke this post h c)) = Fulfilled (Err (NewError (Str corrupted))) \<longleftrightarrow>
         (if truthy (field env ''error'')
          then field (field env ''error'') ''message'' \<noteq> Undefined \<and>
               ToString (field (field env ''error'') ''message'') = Inr corrupted
          else \<not> truthy (field env ''result''))))
   \<and> (post (sent (snd (invoke this post h c))) = Fulfilled (Obj kvs) \<and>
        map_of kvs ''error'' = None \<and> map_of kvs ''result'' = None \<longrightarrow>
        outcome (snd (invoke this post h c)) = Fulfilled (Err (NewError (Str corrupted))))
   \<and> (post (sent (snd (invoke this post h c))) = Rejected e \<and> truthy e \<longrightarrow>
        outcome (snd (invoke this post h c)) = Fulfilled (Err (Raw e)))
   \<and> (post (sent (snd (invoke this post h c))) = Fulfilled env' \<and>
        truthy (field env' ''error'') \<longrightarrow>
        outcome (snd (invoke this post h c)) =
          (case new_Error (field (field env' ''error'') ''message'') of
             Inl thrown \<Rightarrow> Rejected thrown
           | Inr made \<Rightarrow> Fulfilled (Err made)))"
proof -
  let ?R = "post (sent (snd (invoke this post h c)))"
  let ?out = "outcome (snd (invoke this post h c))"
  have 1: "?out = Fulfilled (Err (NewError (Str corrupted))) \<longleftrightarrow>
         (if truthy (field env ''error'')
          then field (field env ''error'') ''message'' \<noteq> Undefined \<and>
               ToString (field (field env ''error'') ''message'') = Inr corrupted
          else \<not> truthy (field env ''result''))"
    if "?R = Fulfilled env" and "env \<noteq> Undefined" and "env \<noteq> Null"
  proof (cases "truthy (field env ''error'')")
    case True
    then show ?thesis
      using that by (auto simp add: outcome_invoke new_Error_eq_Str [symmetric] split: sum.split)
  next
    case False
    then show ?thesis using that by (simp add: outcome_invoke)
  qed
  have 2: "?out = Fulfilled (Err (NewError (Str corrupted)))"
    if "?R = Fulfilled (Obj kvs)" and "map_of kvs ''error'' = None"
      and "map_of kvs ''result'' = None"
    using that by (simp add: outcome_invoke field_Obj)
  have 3: "?out = Fulfilled (Err (Raw e))" if "?R = Rejected e" and "truthy e"
    using that by (simp add: outcome_invoke)
  have 4: "?out = (case new_Error (field (field env' ''error'') ''message'') of
             Inl thrown \<Rightarrow> Rejected thrown
           | Inr made \<Rightarrow> Fulfilled (Err made))"
    if "?R = Fulfilled env'" and "truthy (field env' ''error'')"
  proof -
    from that(2) have "env' \<noteq> Undefined \<and> env' \<noteq> Null"
      by (auto simp add: field_def)
    with that show ?thesis by (simp add: outcome_invoke)
  qed
  from 1 2 3 4 show ?thesis by blast
qed

text \<open>
  A body with neither field, a refused connection, and a protocol error whose message is
  the array holding the fixed text, which \<open>new Error\<close> converts to that text.
\<close>

theorem malformed_response_witness:
  "outcome (snd (invoke local_wallet (stub (Fulfilled (Obj [(''id'', Str ''0'')])))
      (store_of []) GetBalance))
   = Fulfilled (Err (NewError (Str corrupted)))
   \<and> outcome (snd (invoke local_wallet (stub (Rejected (Str ''ECONNREFUSED'')))
      (store_of []) GetBalance))
   = Fulfilled (Err (Raw (Str ''ECONNREFUSED'')))
   \<and> outcome (snd (invoke local_wallet
        (stub (Fulfilled (Obj [(''error'', Obj [(''message'', Arr [Str corrupted])])])))
        (store_of []) GetBalance))
   = Fulfilled (Err (NewError (Str corrupted)))"
  using malformed_response [of "stub (Fulfilled (Obj [(''id'', Str ''0'')]))" local_wallet
      "store_of []" GetBalance "Obj [(''id'', Str ''0'')]" "[(''id'', Str ''0'')]"
      Undefined Undefined]
    malformed_response [of "stub (Rejected (Str ''ECONNREFUSED''))" local_wallet
      "store_of []" GetBalance Undefined "[]" "Str ''ECONNREFUSED''" Undefined]
    malformed_response [of
      "stub (Fulfilled (Obj [(''error'', Obj [(''message'', Arr [Str corrupted])])]))"
      local_wallet "store_of []" GetBalance
      "Obj [(''error'', Obj [(''message'', Arr [Str corrupted])])]" "[]" Undefined Undefined]
  by (simp add: stub_def field_Obj)

text \<open>
  C3 as stated fails in its "only in that case": the body \<open>{result: false}\<close> has a
  \<open>result\<close> field, and \<open>getHeight\<close> still returns the \<open>Err\<close> of a corrupted response.
\<close>

theorem present_falsy_result_is_malformed:
  "map_of [(''result'', Bool False)] ''result'' = Some (Bool False)
   \<and> outcome (getHeight local_wallet (stub (Fulfilled (Obj [(''result'', Bool False)]))))
     = Fulfilled (Err (NewError (Str corrupted)))"
  by (simp add: getHeight_def outcome_unwrap outcome_request stub_def)

text \<open>
  C4, as amended.  For every amount \<open>a \<ge> 0\<close>, \<open>convert(a)\<close> is the binary64 product of
  \<open>a\<close> and \<open>1e12\<close>, the product the code computes, rounded to the nearest integer, a tie
  going up (Isabelle's \<open>round\<close>); where the product overflows, \<open>convert(a)\<close> is the
  infinity it gives.  Within one call of \<open>transfer\<close> or \<open>transferSplit\<close> the conversion is
  applied once for each element of the destinations array, before the request is built:
  the amount of an object is converted as many times as the array lists it, so exactly
  once when the destinations are distinct objects, and the request carries the converted
  amounts.
\<close>

theorem convert_rounds_and_is_applied_once:
  assumes "0 \<le> a"
  shows "convert (Fin a) =
           (case multiply (Fin a) (Fin (10 ^ 12)) of Fin x \<Rightarrow> Fin (of_int (round x)) | v \<Rightarrow> v)
       \<and> amount (fst (transfer this post h ds given) r) =
           (convert ^^ count_list ds r) (amount (h r))
       \<and> param (sent (snd (transfer this post h ds given))) ''destinations'' =
           Arr (map (\<lambda>d. Obj [(''amount'', Num ((convert ^^ count_list ds d) (amount (h d)))),
                              (''address'', Str (address_of (h d)))]) ds)
       \<and> amount (fst (transferSplit this post h ds given) r) =
           (convert ^^ count_list ds r) (amount (h r))
       \<and> param (sent (snd (transferSplit this post h ds given))) ''destinations'' =
           Arr (map (\<lambda>d. Obj [(''amount'', Num ((convert ^^ count_list ds d) (amount (h d)))),
                              (''address'', Str (address_of (h d)))]) ds)
       \<and> (distinct ds \<longrightarrow>
            (\<forall>d \<in> set ds.
               amount (fst (transfer this post h ds given) d) = convert (amount (h d))
             \<and> amount (fst (transferSplit this post h ds given) d) = convert (amount (h d))))"
  using assms
  by (simp add: convert_Fin fst_transfer fst_transferSplit destinations_transfer
        destinations_transferSplit serialise_forEach forEach_convert_amount count_list_distinct)

text \<open>
  The scenario of the specification: the amount \<open>0.000000000001\<close>, as the binary64 value
  nearest to it, is one atomic unit, and the request carries
  \<open>destinations: [{amount: 1, address: "4xyz"}]\<close>.
\<close>

theorem convert_rounds_and_is_applied_once_witness:
  "convert (Fin (4951760157141521 / 4951760157141521099596496896)) = Fin 1
   \<and> param (sent (snd (transfer local_wallet (stub (Fulfilled Null))
        (store_of [\<lparr>amount = Fin (4951760157141521 / 4951760157141521099596496896),
                     address_of = ''4xyz''\<rparr>]) [0] None))) ''destinations'' =
       Arr [Obj [(''amount'', Num (Fin 1)), (''address'', Str ''4xyz'')]]"
  using convert_rounds_and_is_applied_once [of
      "4951760157141521 / 4951760157141521099596496896" local_wallet "stub (Fulfilled Null)"
      "store_of [\<lparr>amount = Fin (4951760157141521 / 4951760157141521099596496896),
                   address_of = ''4xyz''\<rparr>]" "[0]" None 0]
    multiply_example
  by (simp add: store_of_first)

text \<open>
  C4 as stated fails in both parts.  For the amount \<open>9007.199254740995\<close>, as the binary64
  value nearest to it, the exact product with \<open>10^12\<close> rounds to \<open>9007199254740995\<close>, and
  \<open>convert\<close> gives \<open>9007199254740996\<close>.  And one call of \<open>transfer\<close> on an array that
  lists the same destination object twice converts its amount twice: an amount of 1 ends
  as the binary64 value of \<open>10^24\<close>, not as \<open>convert(1)\<close>.
\<close>

theorem convert_is_not_exact_and_aliasing_converts_twice:
  "convert (Fin (4951760157141523 / 549755813888)) = Fin 9007199254740996
   \<and> round ((4951760157141523 / 549755813888 :: rat) * 10 ^ 12) = 9007199254740995
   \<and> amount (fst (transfer local_wallet (stub (Fulfilled Null))
         (store_of [\<lparr>amount = Fin 1, address_of = ''4xyz''\<rparr>]) [0, 0] None) 0)
       = Fin 999999999999999983222784
   \<and> convert (Fin 1) = Fin 1000000000000"
  using convert_example convert_one convert_again
  by (simp add: fst_transfer store_of_first round_def floor_numeral_quotient)

text \<open>
  C5.  An omitted optional argument gives a request whose field is the documented
  default: \<open>filename\<close> is \<open>monero_wallet\<close>, \<open>password\<close> is empty and \<open>language\<close> is
  \<open>English\<close> in \<open>createWallet\<close> and \<open>openWallet\<close>; \<open>mixin\<close> is 4, \<open>unlock_time\<close> 0,
  \<open>do_not_relay\<close> false, \<open>priority\<close> 0, \<open>get_tx_hex\<close> and \<open>get_tx_key\<close> false in
  \<open>transfer\<close> and \<open>transferSplit\<close>, whether the one option is left out of \<open>options\<close> or
  \<open>options\<close> is omitted altogether, and whatever the other arguments are.
\<close>

theorem omitted_arguments_take_defaults:
  "param (sent (createWallet this post None password language)) ''filename'' = Str ''monero_wallet''
   \<and> param (sent (createWallet this post filename None language)) ''password'' = Str []
   \<and> param (sent (createWallet this post filename password None)) ''language'' = Str ''English''
   \<and> param (sent (openWallet this post None password)) ''filename'' = Str ''monero_wallet''
   \<and> param (sent (openWallet this post filename None)) ''password'' = Str []
   \<and> param (sent (snd (transfer this post h ds (Some (opts\<lparr>mixin := None\<rparr>))))) ''mixin'' = Num (Fin 4)
   \<and> param (sent (snd (transfer this post h ds (Some (opts\<lparr>unlockTime := None\<rparr>))))) ''unlock_time'' = Num (Fin 0)
   \<and> param (sent (snd (transfer this post h ds (Some (opts\<lparr>doNotRelay := None\<rparr>))))) ''do_not_relay'' = Bool False
   \<and> param (sent (snd (transfer this post h ds (Some (opts\<lparr>priority := None\<rparr>))))) ''priority'' = Num (Fin 0)
   \<and> param (sent (snd (transfer this post h ds (Some (opts\<lparr>getTxHex := None\<rparr>))))) ''get_tx_hex'' = Bool False
   \<and> param (sent (snd (transfer this post h ds (Some (opts\<lparr>getTxKey := None\<rparr>))))) ''get_tx_key'' = Bool False
   \<and> map (param (sent (snd (transfer this post h ds None))))
         [''mixin'', ''unlock_time'', ''do_not_relay'', ''priority'', ''get_tx_hex'', ''get_tx_key'']
       = [Num (Fin 4), Num (Fin 0), Bool False, Num (Fin 0), Bool False, Bool False]
   \<and> param (sent (snd (transferSplit this post h ds (Some (opts\<lparr>mixin := None\<rparr>))))) ''mixin'' = Num (Fin 4)
   \<and> param (sent (snd (transferSplit this post h ds (Some (opts\<lparr>unlockTime := None\<rparr>))))) ''unlock_time'' = Num (Fin 0)
   \<and> param (sent (snd (transferSplit this post h ds (Some (opts\<lparr>doNotRelay := None\<rparr>))))) ''do_not_relay'' = Bool False
   \<and> param (sent (snd (transferSplit this post h ds (Some (opts\<lparr>priority := None\<rparr>))))) ''priority'' = Num (Fin 0)
   \<and> param (sent (snd (transferSplit this post h ds (Some (opts\<lparr>getTxHex := None\<rparr>))))) ''get_tx_hex'' = Bool False
   \<and> param (sent (snd (transferSplit this post h ds (Some (opts\<lparr>getTxKey := None\<rparr>))))) ''get_tx_key'' = Bool False
   \<and> map (param (sent (snd (transferSplit this post h ds None))))
         [''mixin'', ''unlock_time'', ''do_not_relay'', ''priority'', ''get_tx_hex'', ''get_tx_key'']
       = [Num (Fin 4), Num (Fin 0), Bool False, Num (Fin 0), Bool False, Bool False]"
  by (simp add: defaulting)

text \<open>
  C6.  The claim is that every public operation returns a \<open>Result\<close> whatever the
  transport does.  The code does not: when the transport fulfils with \<open>null\<close> (the JSON
  body \<open>null\<close>) or with \<open>undefined\<close> (an empty body), \<open>res!!.error\<close> throws a TypeError
  and the promise of every public operation is rejected.
\<close>

theorem null_body_throws:
  "outcome (snd (invoke this (stub (Fulfilled Null)) h c)) = Rejected TypeError
   \<and> outcome (snd (invoke this (stub (Fulfilled Undefined)) h c)) = Rejected TypeError"
  by (simp add: outcome_invoke stub_def)

text \<open>
  C7.  Every dispatch attaches HTTP Basic credentials to the outbound request exactly when
  the configured user name is not empty, and then with \<open>sendImmediately\<close> false.  This
  holds of the primitive, of every public operation, and of the warm-up call of the
  constructor.
\<close>

theorem basic_auth_iff_user:
  "auth (sent (request this post m p)) =
     (if user this \<noteq> []
      then Some \<lparr>auth_user = user this, auth_pass = pass this, sendImmediately = False\<rparr>
      else None)
   \<and> auth (sent (snd (invoke this post h c))) =
     (if user this \<noteq> []
      then Some \<lparr>auth_user = user this, auth_pass = pass this, sendImmediately = False\<rparr>
      else None)
   \<and> auth (sent (snd (constructor post hostname0 port0 user0 pass0))) =
     (case user0 of
        None \<Rightarrow> None
      | Some u \<Rightarrow>
          if u \<noteq> []
          then Some \<lparr>auth_user = u, auth_pass = or_string pass0 [], sendImmediately = False\<rparr>
          else None)"
  by (simp add: sent_invoke_auth sent_request constructor_def Let_def or_string_def split: option.split)


text \<open>
  C9.  \<open>transfer\<close> and \<open>transferSplit\<close> write to the caller's destination objects: after
  the call the amount of every listed object is the converted value (converted once for
  each time the array lists it, so \<open>convert\<close> of the amount passed when the destinations
  are distinct).  A second call with the same array converts the already converted
  amounts again, and its request carries the amounts converted twice.
\<close>

theorem transfer_converts_in_place:
  "amount (fst (transfer this post h ds given) r) = (convert ^^ count_list ds r) (amount (h r))
   \<and> amount (fst (transferSplit this post h ds given) r) =
       (convert ^^ count_list ds r) (amount (h r))
   \<and> amount (fst (transfer this post' (fst (transfer this post h ds given)) ds given') r) =
       (convert ^^ count_list ds r) ((convert ^^ count_list ds r) (amount (h r)))
   \<and> amount (fst (transferSplit this post' (fst (transferSplit this post h ds given)) ds given') r) =
       (convert ^^ count_list ds r) ((convert ^^ count_list ds r) (amount (h r)))
   \<and> param (sent (snd (transfer this post' (fst (transfer this post h ds given)) ds given')))
        ''destinations'' =
       Arr (map (\<lambda>d. Obj [(''amount'', Num ((convert ^^ count_list ds d)
                                             ((convert ^^ count_list ds d) (amount (h d))))),
                          (''address'', Str (address_of (h d)))]) ds)
   \<and> param (sent (snd (transferSplit this post'
                         (fst (transferSplit this post h ds given)) ds given')))
        ''destinations'' =
       Arr (map (\<lambda>d. Obj [(''amount'', Num ((convert ^^ count_list ds d)
                                             ((convert ^^ count_list ds d) (amount (h d))))),
                          (''address'', Str (address_of (h d)))]) ds)
   \<and> (distinct ds \<longrightarrow>
        (\<forall>d \<in> set ds.
           amount (fst (transfer this post h ds given) d) = convert (amount (h d))
         \<and> amount (fst (transferSplit this post h ds given) d) = convert (amount (h d))
         \<and> amount (fst (transfer this post' (fst (transfer this post h ds given)) ds given') d) =
             convert (convert (amount (h d)))
         \<and> amount (fst (transferSplit this post'
                      (fst (transferSplit this post h ds given)) ds given') d) =
             convert (convert (amount (h d)))))"
  by (simp add: fst_transfer fst_transferSplit destinations_transfer destinations_transferSplit
        serialise_forEach forEach_convert_amount forEach_convert_address count_list_distinct)

text \<open>
  An amount of 1 is \<open>10^12\<close> after the first call, and the second call sends
  \<open>999999999999999983222784\<close>, the binary64 value of \<open>10^24\<close>.
\<close>

theorem transfer_converts_in_place_witness:
  "amount (fst (transfer local_wallet (stub (Fulfilled Null))
       (store_of [\<lparr>amount = Fin 1, address_of = ''4xyz''\<rparr>]) [0] None) 0) = Fin 1000000000000
   \<and> param (sent (snd (transfer local_wallet (stub (Fulfilled Null))
        (fst (transfer local_wallet (stub (Fulfilled Null))
               (store_of [\<lparr>amount = Fin 1, address_of = ''4xyz''\<rparr>]) [0] None))
        [0] None))) ''destinations'' =
       Arr [Obj [(''amount'', Num (Fin 999999999999999983222784)), (''address'', Str ''4xyz'')]]"
  using transfer_converts_in_place [of local_wallet "stub (Fulfilled Null)"
      "store_of [\<lparr>amount = Fin 1, address_of = ''4xyz''\<rparr>]" "[0]" None 0
      "stub (Fulfilled Null)" None]
    convert_one convert_again
  by (simp add: store_of_first)

text \<open>
  C10.  Defaulting applies to every falsy argument, not only to an omitted one: a
  number that is 0 or NaN passed as \<open>mixin\<close>, \<open>unlockTime\<close>, \<open>priority\<close> or \<open>port\<close>, an
  empty string passed as \<open>filename\<close>, \<open>password\<close>, \<open>language\<close>, \<open>pid\<close>, \<open>hostname\<close>,
  \<open>user\<close> or \<open>pass\<close>, and \<open>false\<close> passed for a flag, each give the documented default
  (\<open>mixin\<close> 4, \<open>filename\<close> \<open>monero_wallet\<close>, \<open>port\<close> 18082, ...) in place of the value
  passed.
\<close>

theorem falsy_arguments_take_defaults:
  assumes "\<not> truthy_number n"
  shows
  "param (sent (snd (transfer this post h ds (Some (opts\<lparr>mixin := Some n\<rparr>))))) ''mixin'' = Num (Fin 4)
   \<and> param (sent (snd (transfer this post h ds (Some (opts\<lparr>unlockTime := Some n\<rparr>))))) ''unlock_time'' = Num (Fin 0)
   \<and> param (sent (snd (transfer this post h ds (Some (opts\<lparr>priority := Some n\<rparr>))))) ''priority'' = Num (Fin 0)
   \<and> param (sent (snd (transfer this post h ds (Some (opts\<lparr>pid := Some []\<rparr>))))) ''payment_id'' = Null
   \<and> param (sent (snd (transfer this post h ds (Some (opts\<lparr>doNotRelay := Some False\<rparr>))))) ''do_not_relay'' = Bool False
   \<and> param (sent (snd (transfer this post h ds (Some (opts\<lparr>getTxHex := Some False\<rparr>))))) ''get_tx_hex'' = Bool False
   \<and> param (sent (snd (transfer this post h ds (Some (opts\<lparr>getTxKey := Some False\<rparr>))))) ''get_tx_key'' = Bool False
   \<and> param (sent (snd (transferSplit this post h ds (Some (opts\<lparr>mixin := Some n\<rparr>))))) ''mixin'' = Num (Fin 4)
   \<and> param (sent (snd (transferSplit this post h ds (Some (opts\<lparr>unlockTime := Some n\<rparr>))))) ''unlock_time'' = Num (Fin 0)
   \<and> param (sent (snd (transferSplit this post h ds (Some (opts\<lparr>priority := Some n\<rparr>))))) ''priority'' = Num (Fin 0)
   \<and> param (sent (snd (transferSplit this post h ds (Some (opts\<lparr>pid := Some []\<rparr>))))) ''payment_id'' = Null
   \<and> param (sent (snd (transferSplit this post h ds (Some (opts\<lparr>doNotRelay := Some False\<rparr>))))) ''do_not_relay'' = Bool False
   \<and> param (sent (snd (transferSplit this post h ds (Some (opts\<lparr>getTxHex := Some False\<rparr>))))) ''get_tx_hex'' = Bool False
   \<and> param (sent (snd (transferSplit this post h ds (Some (opts\<lparr>getTxKey := Some False\<rparr>))))) ''get_tx_key'' = Bool False
   \<and> param (sent (snd (transferSplit this post h ds (Some (opts\<lparr>newAlgorithm := Some False\<rparr>))))) ''new_algorithm'' = Bool False
   \<and> param (sent (createWallet this post (Some []) password language)) ''filename'' = Str ''monero_wallet''
   \<and> param (sent (createWallet this post filename (Some []) language)) ''password'' = Str []
   \<and> param (sent (createWallet this post filename password (Some []))) ''language'' = Str ''English''
   \<and> param (sent (openWallet this post (Some []) password)) ''filename'' = Str ''monero_wallet''
   \<and> param (sent (openWallet this post filename (Some []))) ''password'' = Str []
   \<and> hostname (fst (constructor post (Some []) port0 user0 pass0)) = ''127.0.0.1''
   \<and> port (fst (constructor post hostname0 (Some n) user0 pass0)) = Fin 18082
   \<and> user (fst (constructor post hostname0 port0 (Some []) pass0)) = []
   \<and> pass (fst (constructor post hostname0 port0 user0 (Some []))) = []"
  using assms by (simp add: defaulting constructor_def)

text \<open>
  With \<open>mixin\<close> 0 the request carries \<open>mixin\<close> 4, with \<open>filename\<close> empty it carries
  \<open>monero_wallet\<close>, and with \<open>port\<close> 0 or NaN the client is configured with 18082.
\<close>

theorem falsy_arguments_take_defaults_witness:
  "param (sent (snd (transfer local_wallet (stub (Fulfilled Null))
       (store_of [\<lparr>amount = Fin 1, address_of = ''4xyz''\<rparr>]) [0]
       (Some (no_options\<lparr>mixin := Some (Fin 0)\<rparr>))))) ''mixin'' = Num (Fin 4)
   \<and> param (sent (createWallet local_wallet (stub (Fulfilled Null)) (Some []) None None))
       ''filename'' = Str ''monero_wallet''
   \<and> port (fst (constructor (stub (Fulfilled Null)) None (Some (Fin 0)) None None)) = Fin 18082
   \<and> port (fst (constructor (stub (Fulfilled Null)) None (Some NaN) None None)) = Fin 18082"
  using falsy_arguments_take_defaults [of "Fin 0" local_wallet "stub (Fulfilled Null)"
      "store_of [\<lparr>amount = Fin 1, address_of = ''4xyz''\<rparr>]" "[0]" no_options
      None None None None None None None]
    falsy_arguments_take_defaults [of NaN local_wallet "stub (Fulfilled Null)"
      "store_of [\<lparr>amount = Fin 1, address_of = ''4xyz''\<rparr>]" "[0]" no_options
      None None None None None None None]
  by simp

end
